theory Spec2Isabelle
  imports Complex_Main "HOL-Library.Word" "HOL-Library.Multiset"
begin

section \<open>JavaScript strings\<close>

text \<open>
  A JavaScript string is a sequence of UTF-16 code units. ASCII literals of the source are
  written with \<open>jstr\<close>.
\<close>

type_synonym jchar = "16 word"
type_synonym jstring = "jchar list"

definition jstr :: "string \<Rightarrow> jstring" where
  "jstr s = map (\<lambda>c. of_nat (of_char c)) s"

definition comma :: jchar where
  "comma = 44"

text \<open>
  The code units removed by \<open>String.prototype.trim\<close>: ECMAScript WhiteSpace (TAB, VT, FF,
  ZWNBSP and the Unicode space separators) and LineTerminator (LF, CR, LS, PS).
\<close>

definition is_whitespace :: "jchar \<Rightarrow> bool" where
  "is_whitespace c \<longleftrightarrow>
     c = 0x0009 \<or> c = 0x000A \<or> c = 0x000B \<or> c = 0x000C \<or> c = 0x000D \<or> c = 0x0020 \<or>
     c = 0x00A0 \<or> c = 0x1680 \<or> (0x2000 \<le> c \<and> c \<le> 0x200A) \<or> c = 0x2028 \<or>
     c = 0x2029 \<or> c = 0x202F \<or> c = 0x205F \<or> c = 0x3000 \<or> c = 0xFEFF"

definition trim_start :: "jstring \<Rightarrow> jstring" where
  "trim_start s = dropWhile is_whitespace s"

definition trim :: "jstring \<Rightarrow> jstring" where
  "trim s = rev (dropWhile is_whitespace (rev (dropWhile is_whitespace s)))"

text \<open>\<open>s.split(sep)\<close> for a one-unit separator: the empty string gives one empty piece.\<close>

fun js_split :: "jchar \<Rightarrow> jstring \<Rightarrow> jstring list" where
  "js_split sep [] = [[]]"
| "js_split sep (c # cs) =
     (if c = sep then [] # js_split sep cs
      else (case js_split sep cs of [] \<Rightarrow> [[c]] | w # ws \<Rightarrow> (c # w) # ws))"


text \<open>
  \<open>handleSubmit\<close>, lines 78-79:
  \<^verbatim>\<open>images.split(',').map(url => url.trim()).filter(url => url)\<close>
\<close>

definition imageArray :: "jstring \<Rightarrow> jstring list" where
  "imageArray images = filter (\<lambda>url. url \<noteq> []) (map (\<lambda>url. trim url) (js_split comma images))"

section \<open>JavaScript numbers\<close>

text \<open>
  A Number is an IEEE 754 double. A finite double is modelled by its exact rational value
  (\<open>+0\<close> and \<open>-0\<close> are both \<open>Finite 0\<close>; nothing below tells them apart).
\<close>

datatype js_number = NaN | PosInfinity | NegInfinity | Finite rat

function bit_length :: "int \<Rightarrow> int" where
  "bit_length n = (if n \<le> 0 then 0 else 1 + bit_length (n div 2))"
  by pat_completeness auto
termination
  by (relation "measure nat") auto

declare bit_length.simps [simp del]

function dec_length :: "int \<Rightarrow> int" where
  "dec_length n = (if n \<le> 0 then 0 else 1 + dec_length (n div 10))"
  by pat_completeness auto
termination
  by (relation "measure nat") auto

declare dec_length.simps [simp del]

definition pow2 :: "int \<Rightarrow> rat" where
  "pow2 e = (if 0 \<le> e then 2 ^ nat e else 1 / 2 ^ nat (- e))"

definition pow10 :: "int \<Rightarrow> rat" where
  "pow10 e = (if 0 \<le> e then 10 ^ nat e else 1 / 10 ^ nat (- e))"

text \<open>
  For \<open>0 < a\<close>: the \<open>e\<close> with \<open>2 ^ e \<le> a < 2 ^ (e + 1)\<close>, read off the integer part of \<open>a\<close>, or
  of \<open>1 / a\<close> when \<open>a < 1\<close>.
\<close>

definition binary_exponent :: "rat \<Rightarrow> int" where
  "binary_exponent a =
     (if 1 \<le> a then bit_length \<lfloor>a\<rfloor> - 1 else - bit_length (\<lceil>1 / a\<rceil> - 1))"

text \<open>For \<open>0 < a\<close>: the \<open>n\<close> with \<open>10 ^ (n - 1) \<le> a < 10 ^ n\<close>.\<close>

definition decimal_exponent :: "rat \<Rightarrow> int" where
  "decimal_exponent a =
     (if 1 \<le> a then dec_length \<lfloor>a\<rfloor> else 1 - dec_length (\<lceil>1 / a\<rceil> - 1))"

definition round_half_even :: "rat \<Rightarrow> int" where
  "round_half_even q =
     (let f = \<lfloor>q\<rfloor>; r = q - of_int f
      in if r < 1 / 2 then f else if 1 / 2 < r then f + 1 else if even f then f else f + 1)"

text \<open>
  The Number value for a real (ECMAScript's conversion to a double): round to nearest, ties
  to even, with 53 significant bits, gradual underflow below \<open>2 ^ -1022\<close> and overflow to
  an infinity from \<open>2 ^ 1024 - 2 ^ 970\<close> on.
\<close>

definition to_double :: "rat \<Rightarrow> js_number" where
  "to_double q =
     (if q = 0 then Finite 0
      else
        let a = \<bar>q\<bar>;
            e = max (binary_exponent a) (- 1022);
            ulp = pow2 (e - 52);
            v = of_int (round_half_even (a / ulp)) * ulp
        in if pow2 1024 \<le> v then (if 0 < q then PosInfinity else NegInfinity)
           else Finite (if 0 < q then v else - v))"

definition digit_value :: "jchar \<Rightarrow> nat option" where
  "digit_value c =
     (if 0x30 \<le> c \<and> c \<le> 0x39 then Some (unat c - 0x30)
      else if 0x61 \<le> c \<and> c \<le> 0x66 then Some (unat c - 0x61 + 10)
      else if 0x41 \<le> c \<and> c \<le> 0x46 then Some (unat c - 0x41 + 10)
      else None)"

definition is_radix_digit :: "nat \<Rightarrow> jchar \<Rightarrow> bool" where
  "is_radix_digit R c = (case digit_value c of None \<Rightarrow> False | Some v \<Rightarrow> v < R)"

definition digits_value :: "nat \<Rightarrow> jstring \<Rightarrow> int" where
  "digits_value R Z = foldl (\<lambda>acc c. acc * int R + int (case digit_value c of None \<Rightarrow> 0 | Some v \<Rightarrow> v)) 0 Z"

text \<open>
  \<open>parseInt(string)\<close> with no radix argument: leading white space is skipped, then a sign,
  then \<open>0x\<close>/\<open>0X\<close> selects radix 16, then the longest run of digits is read; no digit gives
  \<open>NaN\<close>.
\<close>

definition parseInt :: "jstring \<Rightarrow> js_number" where
  "parseInt string =
     (let S = trim_start string;
          sign = (if S \<noteq> [] \<and> hd S = 0x2D then - 1 else 1);
          S = (if S \<noteq> [] \<and> (hd S = 0x2B \<or> hd S = 0x2D) then tl S else S);
          hex = (2 \<le> length S \<and> hd S = 0x30 \<and> (hd (tl S) = 0x78 \<or> hd (tl S) = 0x58));
          R = (if hex then 16 else 10);
          S = (if hex then drop 2 S else S);
          Z = takeWhile (is_radix_digit R) S
      in if Z = [] then NaN else to_double (sign * of_int (digits_value R Z)))"

text \<open>The value of an exponent part \<open>e\<close>/\<open>E\<close>, sign, digits at the head of \<open>r\<close>; 0 when there is none.\<close>

definition exponent_part :: "jstring \<Rightarrow> int" where
  "exponent_part r =
     (case r of
        [] \<Rightarrow> 0
      | c # t \<Rightarrow>
          if c = 0x65 \<or> c = 0x45 then
            (let neg = (t \<noteq> [] \<and> hd t = 0x2D);
                 t = (if t \<noteq> [] \<and> (hd t = 0x2B \<or> hd t = 0x2D) then tl t else t);
                 ds = takeWhile (is_radix_digit 10) t
             in if ds = [] then 0
                else if neg then - digits_value 10 ds else digits_value 10 ds)
          else 0)"

text \<open>
  \<open>parseFloat(string)\<close>: leading white space is skipped and the longest prefix that is a
  decimal literal (sign, \<open>Infinity\<close> or digits with an optional fraction and exponent) is
  converted; no such prefix gives \<open>NaN\<close>.
\<close>

definition parseFloat :: "jstring \<Rightarrow> js_number" where
  "parseFloat string =
     (let S = trim_start string;
          neg = (S \<noteq> [] \<and> hd S = 0x2D);
          S = (if S \<noteq> [] \<and> (hd S = 0x2B \<or> hd S = 0x2D) then tl S else S)
      in if take 8 S = jstr ''Infinity'' then (if neg then NegInfinity else PosInfinity)
         else
           let ip = takeWhile (is_radix_digit 10) S;
               r1 = dropWhile (is_radix_digit 10) S;
               dot = (r1 \<noteq> [] \<and> hd r1 = 0x2E);
               fp = (if dot then takeWhile (is_radix_digit 10) (tl r1) else []);
               r2 = (if dot then dropWhile (is_radix_digit 10) (tl r1) else r1)
           in if ip = [] \<and> fp = [] then NaN
              else
                let mv = of_int (digits_value 10 (ip @ fp)) *
                         pow10 (exponent_part r2 - int (length fp))
                in to_double (if neg then - mv else mv))"

text \<open>
  The decimal that Number::toString writes for a positive finite double \<open>a\<close> (a request
  carries a Number in that form, in a URL parameter as in a JSON body): the shortest digit
  string \<open>s\<close>, of \<open>k\<close> digits, such that \<open>s * 10 ^ (n - k)\<close> converts back to \<open>a\<close>; of two
  candidates the closer one, the even one on a tie. Here \<open>n\<close> is the decimal exponent of
  \<open>a\<close>, and the candidate \<open>10 ^ k\<close> stands for the digit \<open>1\<close> with the next exponent.
  Seventeen digits always suffice; \<open>None\<close> is the search running out.
\<close>

fun shortest_decimal :: "nat \<Rightarrow> int \<Rightarrow> int \<Rightarrow> rat \<Rightarrow> rat option" where
  "shortest_decimal 0 k n a = None"
| "shortest_decimal (Suc fuel) k n a =
     (let scale = pow10 (n - k);
          lo = \<lfloor>a / scale\<rfloor>;
          hi = lo + 1;
          ok = (\<lambda>s. pow10 (k - 1) \<le> of_int s \<and> of_int s \<le> pow10 k \<and>
                     to_double (of_int s * scale) = Finite a);
          dlo = a - of_int lo * scale;
          dhi = of_int hi * scale - a
      in if ok lo \<and> ok hi then
           Some (of_int (if dlo < dhi then lo else if dhi < dlo then hi
                         else if even lo then lo else hi) * scale)
         else if ok lo then Some (of_int lo * scale)
         else if ok hi then Some (of_int hi * scale)
         else shortest_decimal fuel (k + 1) n a)"

text \<open>
  The number that the text of a finite Number denotes; \<open>NaN\<close> and the infinities are
  written as words and denote none.
\<close>

definition toString_decimal :: "js_number \<Rightarrow> rat option" where
  "toString_decimal x =
     (case x of
        Finite q \<Rightarrow>
          if q = 0 then Some 0
          else map_option (\<lambda>d. if q < 0 then - d else d)
                 (shortest_decimal 17 1 (decimal_exponent \<bar>q\<bar>) \<bar>q\<bar>)
      | _ \<Rightarrow> None)"

section \<open>The schema: column types and the insert policy of \<open>car_listings\<close>\<close>

text \<open>\<^verbatim>\<open>CREATE TYPE car_condition AS ENUM ('new', 'used', 'certified')\<close>\<close>

datatype car_condition = New | Used | Certified

text \<open>\<^verbatim>\<open>CREATE TYPE transmission_type AS ENUM ('automatic', 'manual')\<close>\<close>

datatype transmission_type = Automatic | Manual

text \<open>Input of the two types: a text that is none of the labels is an error, \<open>None\<close>.\<close>

definition car_condition_in :: "jstring \<Rightarrow> car_condition option" where
  "car_condition_in s =
     (if s = jstr ''new'' then Some New
      else if s = jstr ''used'' then Some Used
      else if s = jstr ''certified'' then Some Certified
      else None)"

definition transmission_type_in :: "jstring \<Rightarrow> transmission_type option" where
  "transmission_type_in s =
     (if s = jstr ''automatic'' then Some Automatic
      else if s = jstr ''manual'' then Some Manual
      else None)"

text \<open>
  The keys are \<open>uuid\<close> columns: \<^verbatim>\<open>id uuid PRIMARY KEY DEFAULT gen_random_uuid()\<close>,
  \<^verbatim>\<open>brand_id uuid REFERENCES car_brands(id) NOT NULL\<close> and so on. Input of the type
  \<open>uuid\<close>: an optional \<open>{\<close>, sixteen bytes of two hexadecimal digits each, a \<open>-\<close>
  allowed after every second byte but the last, the closing \<open>}\<close> where there was an
  opening one, and nothing after that; any other text is an error, \<open>None\<close>.
  \<open>uuid_bytes n\<close> reads the last \<open>n\<close> of the sixteen bytes and gives their digits in
  lower case with the rest of the text. A uuid is written in lower case, grouped
  8-4-4-4-12, and in that form the rows below hold their keys.
\<close>

definition to_lower_hex :: "jchar \<Rightarrow> jchar" where
  "to_lower_hex c = (if 0x41 \<le> c \<and> c \<le> 0x46 then c + 0x20 else c)"

fun uuid_bytes :: "nat \<Rightarrow> jstring \<Rightarrow> (jstring \<times> jstring) option" where
  "uuid_bytes 0 src = Some ([], src)"
| "uuid_bytes (Suc n) src =
     (case src of
        a # b # rest \<Rightarrow>
          if is_radix_digit 16 a \<and> is_radix_digit 16 b then
            (let i = 15 - n;
                 rest = (if rest \<noteq> [] \<and> hd rest = 0x2D \<and> odd i \<and> i < 15 then tl rest else rest)
             in map_option (\<lambda>(ds, r). (to_lower_hex a # to_lower_hex b # ds, r))
                  (uuid_bytes n rest))
          else None
      | _ \<Rightarrow> None)"

definition uuid_out :: "jstring \<Rightarrow> jstring" where
  "uuid_out ds =
     take 8 ds @ 0x2D # take 4 (drop 8 ds) @ 0x2D # take 4 (drop 12 ds) @ 0x2D #
     take 4 (drop 16 ds) @ 0x2D # drop 20 ds"

definition uuid_in :: "jstring \<Rightarrow> jstring option" where
  "uuid_in s =
     (let braces = (s \<noteq> [] \<and> hd s = 0x7B);
          src = (if braces then tl s else s)
      in case uuid_bytes 16 src of
           None \<Rightarrow> None
         | Some (ds, rest) \<Rightarrow>
             if (if braces then rest = [0x7D] else rest = []) then Some (uuid_out ds) else None)"

text \<open>
  \<^verbatim>\<open>year integer NOT NULL\<close>, \<^verbatim>\<open>mileage integer NOT NULL\<close>: input of the type
  \<open>integer\<close> reads a number that is written as an integer and fits 32 bits; anything else
  is an error, \<open>None\<close>. (The text of a double has no fraction and no exponent exactly when
  the double is an integer below \<open>10 ^ 21\<close>.)
\<close>

definition integer_in :: "rat \<Rightarrow> int option" where
  "integer_in d =
     (if d = of_int \<lfloor>d\<rfloor> \<and> - (2 ^ 31) \<le> \<lfloor>d\<rfloor> \<and> \<lfloor>d\<rfloor> < 2 ^ 31 then Some \<lfloor>d\<rfloor> else None)"

text \<open>
  \<^verbatim>\<open>price decimal(12,2) NOT NULL\<close> is compared as a \<open>numeric\<close>: a decimal, an infinity
  or \<open>NaN\<close>, where \<open>NaN\<close> is equal to itself and above every other value.
\<close>

datatype numeric = Decimal rat | Numeric_NegInfinity | Numeric_Infinity | Numeric_NaN

fun numeric_le :: "numeric \<Rightarrow> numeric \<Rightarrow> bool" where
  "numeric_le x Numeric_NaN = True"
| "numeric_le Numeric_NaN y = False"
| "numeric_le Numeric_NegInfinity y = True"
| "numeric_le x Numeric_NegInfinity = False"
| "numeric_le x Numeric_Infinity = True"
| "numeric_le Numeric_Infinity y = False"
| "numeric_le (Decimal a) (Decimal b) = (a \<le> b)"

text \<open>
  A row of \<open>car_listings\<close>; \<open>created_at\<close> is a time stamp counted in some unit, which
  every row has by the column's default \<open>now()\<close>.
\<close>

record car_listing =
  cl_id :: jstring
  cl_seller_id :: jstring
  cl_brand_id :: jstring
  cl_model_id :: jstring
  cl_title :: jstring
  cl_description :: "jstring option"
  cl_year :: int
  cl_price :: rat
  cl_mileage :: int
  cl_condition :: car_condition
  cl_transmission :: transmission_type
  cl_color :: "jstring option"
  cl_vin :: "jstring option"
  cl_images :: "jstring list"
  cl_created_at :: int

text \<open>A row of \<open>car_models\<close>.\<close>

record car_model =
  cm_id :: jstring
  cm_brand_id :: jstring
  cm_name :: jstring

text \<open>The object \<open>handleSubmit\<close> passes to \<open>insert\<close>.\<close>

record listing_insert =
  ins_seller_id :: jstring
  ins_brand_id :: "jstring option"
  ins_model_id :: "jstring option"
  ins_title :: "jstring option"
  ins_description :: "jstring option"
  ins_year :: js_number
  ins_price :: js_number
  ins_mileage :: js_number
  ins_condition :: "jstring option"
  ins_transmission :: "jstring option"
  ins_color :: "jstring option"
  ins_vin :: "jstring option"
  ins_images :: "jstring list"

text \<open>
  \<^verbatim>\<open>CREATE POLICY "Authenticated users can create listings" ON car_listings FOR INSERT
  TO authenticated WITH CHECK (auth.uid() = seller_id)\<close>; \<open>uid\<close> is \<open>None\<close> for a request
  without a session.
\<close>

definition insert_policy :: "jstring option \<Rightarrow> listing_insert \<Rightarrow> bool" where
  "insert_policy uid r = (case uid of None \<Rightarrow> False | Some u \<Rightarrow> u = ins_seller_id r)"

section \<open>Requests and their results\<close>

text \<open>
  A value that is thrown or that a promise rejects with: an instance of \<open>Error\<close> with its
  message, or anything else. The views show \<open>error_text\<close> of it:
  \<^verbatim>\<open>error instanceof Error ? error.message : 'An error occurred'\<close>
\<close>

datatype js_exn = ErrorInstance jstring | OtherThrown

definition error_text :: "js_exn \<Rightarrow> jstring" where
  "error_text e = (case e of ErrorInstance m \<Rightarrow> m | OtherThrown \<Rightarrow> jstr ''An error occurred'')"

text \<open>
  What an awaited request gives: the promise rejects, or it resolves to \<open>{ data, error }\<close>
  (\<open>data\<close> is \<open>null\<close> or a value, \<open>error\<close> is \<open>null\<close> or an error object).
\<close>

datatype 'a response = Rejects js_exn | Resolves "'a option" "js_exn option"

text \<open>
  The client library's \<open>.single()\<close>: exactly one row is the data; no row or several rows are
  an error object \<open>e\<close> of the library and no data.
\<close>

definition single :: "js_exn \<Rightarrow> 'a list \<Rightarrow> 'a response" where
  "single e rows = (case rows of [r] \<Rightarrow> Resolves (Some r) None | _ \<Rightarrow> Resolves None (Some e))"

text \<open>
  What the request of \<open>fetchModels\<close> resolves to when it reaches the service (Home and
  ListingCreate build the same request): the rows of \<open>car_models\<close> with the brand id
  (their order by name is not modelled), or the error object \<open>refused\<close> when the id is no
  uuid.
\<close>

definition fetchModels_request ::
  "js_exn \<Rightarrow> car_model list \<Rightarrow> jstring \<Rightarrow> car_model list response" where
  "fetchModels_request refused table brandId =
     (case uuid_in brandId of
        None \<Rightarrow> Resolves None (Some refused)
      | Some u \<Rightarrow> Resolves (Some (filter (\<lambda>m. cm_brand_id m = u) table)) None)"

section \<open>ListingDetails\<close>

record details_state =
  listing :: "car_listing option"
  ld_loading :: bool
  ld_error :: "jstring option"

text \<open>
  The request of \<open>fetchListing\<close>: the rows with the id, through \<open>.single()\<close> with its error
  object \<open>e\<close>; for an id that is no uuid the service refuses the request with \<open>refused\<close>.
\<close>

definition fetchListing_request ::
  "js_exn \<Rightarrow> js_exn \<Rightarrow> car_listing list \<Rightarrow> jstring \<Rightarrow> car_listing response" where
  "fetchListing_request refused e table listingId =
     (case uuid_in listingId of
        None \<Rightarrow> Resolves None (Some refused)
      | Some u \<Rightarrow> single e (filter (\<lambda>r. cl_id r = u) table))"

text \<open>\<open>fetchListing\<close> from the point where the awaited request has settled.\<close>

definition fetchListing :: "car_listing response \<Rightarrow> details_state \<Rightarrow> details_state" where
  "fetchListing result s =
     (case result of
        Rejects e \<Rightarrow> s\<lparr>ld_error := Some (error_text e), ld_loading := False\<rparr>
      | Resolves data (Some error) \<Rightarrow> s\<lparr>ld_error := Some (error_text error), ld_loading := False\<rparr>
      | Resolves data None \<Rightarrow> s\<lparr>listing := data, ld_loading := False\<rparr>)"

datatype details_view = Loading_view | Error_view jstring | Not_found_view | Listing_view car_listing

text \<open>
  The three early returns of the component, in their order; \<open>if (error)\<close> holds for a
  non-empty string.
\<close>

definition ListingDetails_view :: "details_state \<Rightarrow> details_view" where
  "ListingDetails_view s =
     (if ld_loading s then Loading_view
      else if ld_error s \<noteq> None \<and> ld_error s \<noteq> Some [] then Error_view (the (ld_error s))
      else (case listing s of None \<Rightarrow> Not_found_view | Some l \<Rightarrow> Listing_view l))"

definition ListingDetails_init :: details_state where
  "ListingDetails_init = \<lparr>listing = None, ld_loading = True, ld_error = None\<rparr>"

section \<open>ListingCreate\<close>

text \<open>
  The component's state, and \<open>model_select\<close>: the value of the \<open>model\<close> select, which the
  component does not control (it has no \<open>value\<close> attribute), so the document holds it.
\<close>

record create_state =
  lc_loading :: bool
  lc_error :: "jstring option"
  lc_models :: "car_model list"
  selectedBrand :: jstring
  model_select :: jstring

definition ListingCreate_init :: create_state where
  "ListingCreate_init =
     \<lparr>lc_loading = False, lc_error = None, lc_models = [], selectedBrand = [], model_select = []\<rparr>"

text \<open>
  \<open>setModels\<close>: the options of the select are rendered from the new list; a select whose
  chosen option is removed falls back to its first option, \<open>Select Model\<close> with value \<open>""\<close>.
\<close>

definition setModels :: "car_model list \<Rightarrow> create_state \<Rightarrow> create_state" where
  "setModels ms s =
     s\<lparr>lc_models := ms,
       model_select := (if model_select s \<in> set (map cm_id ms) then model_select s else [])\<rparr>"

text \<open>
  \<open>fetchModels\<close> of ListingCreate from the point where the awaited request has settled
  (lines 57-61): an error is thrown and logged, and the list stays.
\<close>

definition lc_fetchModels :: "car_model list response \<Rightarrow> create_state \<Rightarrow> create_state" where
  "lc_fetchModels result s =
     (case result of
        Rejects e \<Rightarrow> s
      | Resolves data (Some error) \<Rightarrow> s
      | Resolves data None \<Rightarrow> setModels (case data of None \<Rightarrow> [] | Some ms \<Rightarrow> ms) s)"

text \<open>
  The effect on \<open>selectedBrand\<close> (lines 27-33): a brand starts \<open>fetchModels\<close> (the result
  is the brand id to fetch for), no brand empties the list.
\<close>

definition lc_brand_effect :: "create_state \<Rightarrow> create_state \<times> jstring option" where
  "lc_brand_effect s =
     (if selectedBrand s \<noteq> [] then (s, Some (selectedBrand s)) else (setModels [] s, None))"

text \<open>
  \<open>onChange\<close> of the brand select, \<open>setSelectedBrand(e.target.value)\<close>, and the effect, which
  runs when the value has changed.
\<close>

definition lc_select_brand :: "jstring \<Rightarrow> create_state \<Rightarrow> create_state \<times> jstring option" where
  "lc_select_brand b s =
     (if b = selectedBrand s then (s, None) else lc_brand_effect (s\<lparr>selectedBrand := b\<rparr>))"

text \<open>
  The user picks an entry of the model select: possible when the select is enabled
  (\<open>disabled={!selectedBrand}\<close>) and the entry is \<open>Select Model\<close> or one of the options
  rendered from \<open>models\<close>.
\<close>

definition lc_select_model :: "jstring \<Rightarrow> create_state \<Rightarrow> create_state" where
  "lc_select_model m s =
     (if selectedBrand s \<noteq> [] \<and> (m = [] \<or> m \<in> set (map cm_id (lc_models s)))
      then s\<lparr>model_select := m\<rparr> else s)"

text \<open>The entries \<open>new FormData(form)\<close> takes from a form: \<open>get(name)\<close> is \<open>null\<close> or a string.\<close>

type_synonym FormData = "jstring \<Rightarrow> jstring option"

text \<open>
  The submit event \<open>e\<close> as \<open>handleSubmit\<close> reads it: \<open>e.currentTarget\<close> is the form, given
  here by the entries of its \<open>FormData\<close>, or \<open>null\<close>.
\<close>

record form_event =
  currentTarget :: "FormData option"

text \<open>
  React's dispatch: \<open>currentTarget\<close> is the form while React calls the listener, and React
  sets it to \<open>null\<close> when the listener has returned. The listener \<open>handleSubmit\<close> is an
  \<open>async\<close> function, so it returns at its first \<open>await\<close>, line 70, and the lines after it
  run when the awaited promise has settled.
\<close>

definition dispatched :: "FormData \<Rightarrow> form_event" where
  "dispatched form = \<lparr>currentTarget = Some form\<rparr>"

definition listener_returned :: "form_event \<Rightarrow> form_event" where
  "listener_returned e = e\<lparr>currentTarget := None\<rparr>"

record user =
  user_id :: jstring

text \<open>
  What \<open>handleSubmit\<close> awaits: \<open>supabase.auth.getUser()\<close> (\<open>data.user\<close> is \<open>null\<close> without a
  session) and the insert, each of which may also reject; and the messages of the two
  \<open>TypeError\<close>s of the browser: of \<open>new FormData(null)\<close> and of reading a property of
  \<open>null\<close>.
\<close>

datatype 'a awaited = Rejected js_exn | Resolved 'a

record submit_env =
  getUser :: "user option awaited"
  insert_result :: "listing_insert \<Rightarrow> js_exn option awaited"
  constructor_error_text :: jstring
  property_error_text :: jstring

text \<open>What a run of \<open>handleSubmit\<close> leaves: the state, the \<open>navigate\<close> call and the insert request.\<close>

record submit_outcome =
  state_after :: create_state
  navigated :: "jstring option"
  insert_request :: "listing_insert option"

text \<open>\<open>x as string\<close> passed to \<open>parseInt\<close>/\<open>parseFloat\<close>: \<open>null\<close> is converted to \<open>"null"\<close>.\<close>

definition to_string :: "jstring option \<Rightarrow> jstring" where
  "to_string v = (case v of None \<Rightarrow> jstr ''null'' | Some s \<Rightarrow> s)"

text \<open>
  \<open>handleSubmit\<close> (lines 64-108). \<open>e\<close> is the event as it is when line 77 reads it, which is
  after the \<open>await\<close> of line 70: with \<open>currentTarget\<close> \<open>null\<close>, \<open>new FormData(e.currentTarget)\<close>
  throws; with a form that has no \<open>images\<close> entry, \<open>images.split\<close> of line 79 throws.
\<close>

definition handleSubmit :: "submit_env \<Rightarrow> form_event \<Rightarrow> create_state \<Rightarrow> submit_outcome" where
  "handleSubmit env e s0 =
     (let s = s0\<lparr>lc_loading := True, lc_error := None\<rparr>;
          caught = (\<lambda>error req.
            \<lparr>state_after = s\<lparr>lc_error := Some (error_text error), lc_loading := False\<rparr>,
             navigated = None, insert_request = req\<rparr>)
      in case getUser env of
           Rejected error \<Rightarrow> caught error None
         | Resolved None \<Rightarrow>
             \<lparr>state_after = s\<lparr>lc_loading := False\<rparr>,
              navigated = Some (jstr ''/login''), insert_request = None\<rparr>
         | Resolved (Some user) \<Rightarrow>
             (case currentTarget e of
                None \<Rightarrow> caught (ErrorInstance (constructor_error_text env)) None
              | Some formData \<Rightarrow>
                  (case formData (jstr ''images'') of
                     None \<Rightarrow> caught (ErrorInstance (property_error_text env)) None
                   | Some images \<Rightarrow>
                       let row =
                         \<lparr>ins_seller_id = user_id user,
                          ins_brand_id = formData (jstr ''brand''),
                          ins_model_id = formData (jstr ''model''),
                          ins_title = formData (jstr ''title''),
                          ins_description = formData (jstr ''description''),
                          ins_year = parseInt (to_string (formData (jstr ''year''))),
                          ins_price = parseFloat (to_string (formData (jstr ''price''))),
                          ins_mileage = parseInt (to_string (formData (jstr ''mileage''))),
                          ins_condition = formData (jstr ''condition''),
                          ins_transmission = formData (jstr ''transmission''),
                          ins_color = formData (jstr ''color''),
                          ins_vin = formData (jstr ''vin''),
                          ins_images = imageArray images\<rparr>
                       in (case insert_result env row of
                             Rejected error \<Rightarrow> caught error (Some row)
                           | Resolved (Some listingError) \<Rightarrow> caught listingError (Some row)
                           | Resolved None \<Rightarrow>
                               \<lparr>state_after = s\<lparr>lc_loading := False\<rparr>,
                                navigated = Some (jstr ''/''), insert_request = Some row\<rparr>))))"

text \<open>
  \<^verbatim>\<open><form onSubmit={handleSubmit}>\<close>: the user submits the form with the entries \<open>form\<close>;
  React calls \<open>handleSubmit\<close> with the event, and the body from line 77 on finds the event as
  the dispatch has left it.
\<close>

definition onSubmit :: "submit_env \<Rightarrow> FormData \<Rightarrow> create_state \<Rightarrow> submit_outcome" where
  "onSubmit env form s = handleSubmit env (listener_returned (dispatched form)) s"

text \<open>The banner \<^verbatim>\<open>{error && (<div ...>{error}</div>)}\<close>: shown for a non-empty string.\<close>

definition error_banner :: "create_state \<Rightarrow> jstring option" where
  "error_banner s = (case lc_error s of None \<Rightarrow> None | Some m \<Rightarrow> if m = [] then None else Some m)"

section \<open>Home: the listing query\<close>

text \<open>\<open>interface Filters\<close>: every field is optional; \<open>None\<close> is \<open>undefined\<close>.\<close>

record Filters =
  brand_id :: "jstring option"
  model_id :: "jstring option"
  minPrice :: "js_number option"
  maxPrice :: "js_number option"
  minYear :: "js_number option"
  maxYear :: "js_number option"
  minMileage :: "js_number option"
  maxMileage :: "js_number option"
  transmission :: "jstring option"
  condition :: "jstring option"

text \<open>The filter record \<open>{}\<close>.\<close>

definition no_filters :: Filters where
  "no_filters =
     \<lparr>brand_id = None, model_id = None, minPrice = None, maxPrice = None, minYear = None,
      maxYear = None, minMileage = None, maxMileage = None, transmission = None,
      condition = None\<rparr>"

text \<open>
  The columns of \<open>car_listings\<close> the query names: those it compares with a string of the
  filter record (\<open>'brand_id'\<close>, \<open>'model_id'\<close>, \<open>'transmission'\<close>, \<open>'condition'\<close>), those it
  compares with a number (\<open>'price'\<close>, \<open>'year'\<close>, \<open>'mileage'\<close>), and the one it orders by
  (\<open>'created_at'\<close>).
\<close>

datatype string_column = Col_brand_id | Col_model_id | Col_transmission | Col_condition

datatype number_column = Col_price | Col_year | Col_mileage

datatype order_column = Col_created_at

datatype predicate =
  Eq string_column jstring | Gte number_column js_number | Lte number_column js_number

text \<open>The request the query builder accumulates.\<close>

record query =
  q_from :: jstring
  q_embedded :: "jstring list"
  q_order_by :: "order_column option"
  q_ascending :: bool
  q_predicates :: "predicate list"

text \<open>
  \<^verbatim>\<open>supabase.from('car_listings').select(`*, car_brands (name), car_models (name)`)\<close>
\<close>

definition select_listings :: query where
  "select_listings =
     \<lparr>q_from = jstr ''car_listings'', q_embedded = [jstr ''car_brands'', jstr ''car_models''],
      q_order_by = None, q_ascending = True, q_predicates = []\<rparr>"

definition order :: "order_column \<Rightarrow> bool \<Rightarrow> query \<Rightarrow> query" where
  "order c asc q = q\<lparr>q_order_by := Some c, q_ascending := asc\<rparr>"

definition eq :: "string_column \<Rightarrow> jstring \<Rightarrow> query \<Rightarrow> query" where
  "eq c v q = q\<lparr>q_predicates := q_predicates q @ [Eq c v]\<rparr>"

definition gte :: "number_column \<Rightarrow> js_number \<Rightarrow> query \<Rightarrow> query" where
  "gte c v q = q\<lparr>q_predicates := q_predicates q @ [Gte c v]\<rparr>"

definition lte :: "number_column \<Rightarrow> js_number \<Rightarrow> query \<Rightarrow> query" where
  "lte c v q = q\<lparr>q_predicates := q_predicates q @ [Lte c v]\<rparr>"

text \<open>\<open>if (v)\<close> for an optional string: defined and not empty.\<close>

definition truthy_string :: "jstring option \<Rightarrow> bool" where
  "truthy_string v = (case v of None \<Rightarrow> False | Some s \<Rightarrow> s \<noteq> [])"

text \<open>\<open>if (v)\<close> for an optional number: defined, not zero and not \<open>NaN\<close>.\<close>

definition truthy_number :: "js_number option \<Rightarrow> bool" where
  "truthy_number v =
     (case v of None \<Rightarrow> False | Some NaN \<Rightarrow> False | Some (Finite q) \<Rightarrow> q \<noteq> 0 | Some _ \<Rightarrow> True)"

text \<open>The query \<open>fetchListings\<close> builds (lines 95-133) from the filters it sees.\<close>

definition fetchListings_query :: "Filters \<Rightarrow> query" where
  "fetchListings_query filters =
     (let query = order Col_created_at False select_listings;
          query = (if truthy_string (brand_id filters)
                   then eq Col_brand_id (the (brand_id filters)) query else query);
          query = (if truthy_string (model_id filters)
                   then eq Col_model_id (the (model_id filters)) query else query);
          query = (if truthy_number (minPrice filters)
                   then gte Col_price (the (minPrice filters)) query else query);
          query = (if truthy_number (maxPrice filters)
                   then lte Col_price (the (maxPrice filters)) query else query);
          query = (if truthy_number (minYear filters)
                   then gte Col_year (the (minYear filters)) query else query);
          query = (if truthy_number (maxYear filters)
                   then lte Col_year (the (maxYear filters)) query else query);
          query = (if truthy_number (minMileage filters)
                   then gte Col_mileage (the (minMileage filters)) query else query);
          query = (if truthy_number (maxMileage filters)
                   then lte Col_mileage (the (maxMileage filters)) query else query);
          query = (if truthy_string (transmission filters)
                   then eq Col_transmission (the (transmission filters)) query else query);
          query = (if truthy_string (condition filters)
                   then eq Col_condition (the (condition filters)) query else query)
      in query)"

subsection \<open>What the service answers\<close>

text \<open>The value of a column, by the column's type.\<close>

datatype sql_value =
  Uuid jstring | Transmission transmission_type | Condition car_condition | Integer int |
  Numeric numeric

definition string_cell :: "string_column \<Rightarrow> car_listing \<Rightarrow> sql_value" where
  "string_cell c r =
     (case c of
        Col_brand_id \<Rightarrow> Uuid (cl_brand_id r)
      | Col_model_id \<Rightarrow> Uuid (cl_model_id r)
      | Col_transmission \<Rightarrow> Transmission (cl_transmission r)
      | Col_condition \<Rightarrow> Condition (cl_condition r))"

definition number_cell :: "number_column \<Rightarrow> car_listing \<Rightarrow> sql_value" where
  "number_cell c r =
     (case c of
        Col_price \<Rightarrow> Numeric (Decimal (cl_price r))
      | Col_year \<Rightarrow> Integer (cl_year r)
      | Col_mileage \<Rightarrow> Integer (cl_mileage r))"

text \<open>
  The value of a predicate travels as text in the request, a number as Number::toString
  writes it, and the database reads the text by the input of the column's type: a uuid, a
  label of the enumeration, an integer, a \<open>numeric\<close> (which also reads the words
  \<open>Infinity\<close>, \<open>-Infinity\<close> and \<open>NaN\<close>). \<open>None\<close>: the text is no value of the type and
  the database refuses the request.
\<close>

definition string_literal_in :: "string_column \<Rightarrow> jstring \<Rightarrow> sql_value option" where
  "string_literal_in c v =
     (case c of
        Col_brand_id \<Rightarrow> map_option Uuid (uuid_in v)
      | Col_model_id \<Rightarrow> map_option Uuid (uuid_in v)
      | Col_transmission \<Rightarrow> map_option Transmission (transmission_type_in v)
      | Col_condition \<Rightarrow> map_option Condition (car_condition_in v))"

definition numeric_in :: "js_number \<Rightarrow> numeric option" where
  "numeric_in v =
     (case v of
        NaN \<Rightarrow> Some Numeric_NaN
      | PosInfinity \<Rightarrow> Some Numeric_Infinity
      | NegInfinity \<Rightarrow> Some Numeric_NegInfinity
      | Finite q \<Rightarrow> map_option Decimal (toString_decimal v))"

definition number_literal_in :: "number_column \<Rightarrow> js_number \<Rightarrow> sql_value option" where
  "number_literal_in c v =
     (case c of
        Col_price \<Rightarrow> map_option Numeric (numeric_in v)
      | Col_year \<Rightarrow> map_option Integer (Option.bind (toString_decimal v) integer_in)
      | Col_mileage \<Rightarrow> map_option Integer (Option.bind (toString_decimal v) integer_in))"

text \<open>The order of two values of one numeric type.\<close>

fun sql_le :: "sql_value \<Rightarrow> sql_value \<Rightarrow> bool" where
  "sql_le (Integer a) (Integer b) = (a \<le> b)"
| "sql_le (Numeric a) (Numeric b) = numeric_le a b"
| "sql_le _ _ = False"

text \<open>A predicate whose value the database can read.\<close>

fun accepted :: "predicate \<Rightarrow> bool" where
  "accepted (Eq c v) = (string_literal_in c v \<noteq> None)"
| "accepted (Gte c v) = (number_literal_in c v \<noteq> None)"
| "accepted (Lte c v) = (number_literal_in c v \<noteq> None)"

text \<open>A predicate holds on a row.\<close>

fun holds :: "car_listing \<Rightarrow> predicate \<Rightarrow> bool" where
  "holds r (Eq c v) = (string_literal_in c v = Some (string_cell c r))"
| "holds r (Gte c v) =
     (case number_literal_in c v of None \<Rightarrow> False | Some b \<Rightarrow> sql_le b (number_cell c r))"
| "holds r (Lte c v) =
     (case number_literal_in c v of None \<Rightarrow> False | Some b \<Rightarrow> sql_le (number_cell c r) b)"

text \<open>
  The rows a query selects from the table: those on which every predicate holds (the
  filters of a request are a conjunction), in the requested order. \<open>None\<close>: the request
  is refused, for a predicate whose value the database cannot read.
\<close>

definition run_query :: "query \<Rightarrow> car_listing list \<Rightarrow> car_listing list option" where
  "run_query q table =
     (if list_all accepted (q_predicates q) then
        (let rows = filter (\<lambda>r. list_all (holds r) (q_predicates q)) table
         in case q_order_by q of
              None \<Rightarrow> Some rows
            | Some Col_created_at \<Rightarrow>
                Some (if q_ascending q then sort_key cl_created_at rows
                      else rev (sort_key cl_created_at rows)))
      else None)"

text \<open>
  What the awaited query of \<open>fetchListings\<close> resolves to when it reaches the service;
  \<open>refused\<close> is the error object of a refused request.
\<close>

definition listings_response :: "js_exn \<Rightarrow> query \<Rightarrow> car_listing list \<Rightarrow> car_listing list response" where
  "listings_response refused q table =
     (case run_query q table of
        None \<Rightarrow> Resolves None (Some refused)
      | Some rows \<Rightarrow> Resolves (Some rows) None)"

subsection \<open>The filter set as the specification words it\<close>

text \<open>
  Specification 4.1: for each present optional field, an equality predicate (brand id,
  model id, transmission, condition) or a range predicate (\<open>>=\<close> for min, \<open><=\<close> for max);
  absent fields impose no predicate.
\<close>

definition present :: "('a \<Rightarrow> predicate) \<Rightarrow> 'a option \<Rightarrow> predicate list" where
  "present mk v = (case v of None \<Rightarrow> [] | Some x \<Rightarrow> [mk x])"

definition spec_predicates :: "Filters \<Rightarrow> predicate list" where
  "spec_predicates f =
     present (Eq Col_brand_id) (brand_id f) @
     present (Eq Col_model_id) (model_id f) @
     present (Gte Col_price) (minPrice f) @
     present (Lte Col_price) (maxPrice f) @
     present (Gte Col_year) (minYear f) @
     present (Lte Col_year) (maxYear f) @
     present (Gte Col_mileage) (minMileage f) @
     present (Lte Col_mileage) (maxMileage f) @
     present (Eq Col_transmission) (transmission f) @
     present (Eq Col_condition) (condition f)"

section \<open>Home: state, handlers and the brand effect\<close>

text \<open>The state of the component (the brand list takes no part in what follows).\<close>

record home_state =
  listings :: "car_listing list"
  loading :: bool
  models :: "car_model list"
  filters :: Filters
  showFilters :: bool

definition Home_init :: home_state where
  "Home_init = \<lparr>listings = [], loading = True, models = [], filters = no_filters, showFilters = False\<rparr>"

datatype home_request = Fetch_listings query | Fetch_models jstring

text \<open>
  \<open>fetchListings\<close> from the point where the awaited query has settled (lines 135-143).
\<close>

definition fetchListings :: "car_listing list response \<Rightarrow> home_state \<Rightarrow> home_state" where
  "fetchListings result s =
     (case result of
        Rejects e \<Rightarrow> s\<lparr>loading := False\<rparr>
      | Resolves data (Some error) \<Rightarrow> s\<lparr>loading := False\<rparr>
      | Resolves data None \<Rightarrow>
          s\<lparr>listings := (case data of None \<Rightarrow> [] | Some rows \<Rightarrow> rows), loading := False\<rparr>)"

text \<open>
  \<open>fetchModels\<close> of Home from the point where the awaited query has settled (lines
  82-90): only \<open>data\<close> is read, \<open>setModels(data || [])\<close>, whatever \<open>error\<close> holds.
\<close>

definition fetchModels :: "car_model list response \<Rightarrow> home_state \<Rightarrow> home_state" where
  "fetchModels result s =
     (case result of
        Rejects e \<Rightarrow> s
      | Resolves data error \<Rightarrow> s\<lparr>models := (case data of None \<Rightarrow> [] | Some ms \<Rightarrow> ms)\<rparr>)"

text \<open>The effect on \<open>filters.brand_id\<close> (lines 59-66).\<close>

definition brand_effect :: "home_state \<Rightarrow> home_state \<times> home_request list" where
  "brand_effect s =
     (if truthy_string (brand_id (filters s))
      then (s, [Fetch_models (the (brand_id (filters s)))])
      else (s\<lparr>models := [], filters := (filters s)\<lparr>model_id := None\<rparr>\<rparr>, []))"

text \<open>
  A handler runs on the state \<open>rendered\<close> of the last render and leaves the state \<open>s\<close>;
  after the next render the effect runs if \<open>filters.brand_id\<close> differs from the rendered one.
\<close>

definition commit :: "home_state \<Rightarrow> home_state \<Rightarrow> home_state \<times> home_request list" where
  "commit rendered s =
     (if brand_id (filters s) \<noteq> brand_id (filters rendered) then brand_effect s else (s, []))"

text \<open>The calls \<open>handleFilterChange(name, value)\<close> the panel makes, one per control.\<close>

datatype filter_change =
  Set_brand_id "jstring option" | Set_model_id "jstring option" |
  Set_minPrice "js_number option" | Set_maxPrice "js_number option" |
  Set_minYear "js_number option" | Set_maxYear "js_number option" |
  Set_minMileage "js_number option" | Set_maxMileage "js_number option" |
  Set_transmission "jstring option" | Set_condition "jstring option"

definition set_filter :: "filter_change \<Rightarrow> Filters \<Rightarrow> Filters" where
  "set_filter c prev =
     (case c of
        Set_brand_id v \<Rightarrow> prev\<lparr>brand_id := v\<rparr>
      | Set_model_id v \<Rightarrow> prev\<lparr>model_id := v\<rparr>
      | Set_minPrice v \<Rightarrow> prev\<lparr>minPrice := v\<rparr>
      | Set_maxPrice v \<Rightarrow> prev\<lparr>maxPrice := v\<rparr>
      | Set_minYear v \<Rightarrow> prev\<lparr>minYear := v\<rparr>
      | Set_maxYear v \<Rightarrow> prev\<lparr>maxYear := v\<rparr>
      | Set_minMileage v \<Rightarrow> prev\<lparr>minMileage := v\<rparr>
      | Set_maxMileage v \<Rightarrow> prev\<lparr>maxMileage := v\<rparr>
      | Set_transmission v \<Rightarrow> prev\<lparr>transmission := v\<rparr>
      | Set_condition v \<Rightarrow> prev\<lparr>condition := v\<rparr>)"

definition handleFilterChange :: "filter_change \<Rightarrow> home_state \<Rightarrow> home_state \<times> home_request list" where
  "handleFilterChange c s = commit s (s\<lparr>filters := set_filter c (filters s)\<rparr>)"

text \<open>\<open>onChange\<close> of a select of the panel: \<^verbatim>\<open>e.target.value || undefined\<close>.\<close>

definition select_value :: "jstring \<Rightarrow> jstring option" where
  "select_value v = (if v = [] then None else Some v)"

text \<open>
  \<open>onChange\<close> of a number input of the panel, whose value is the empty string or the text
  of a number \<open>x\<close>: \<^verbatim>\<open>e.target.value ? Number(e.target.value) : undefined\<close>.
\<close>

definition number_value :: "rat option \<Rightarrow> js_number option" where
  "number_value v = (case v of None \<Rightarrow> None | Some x \<Rightarrow> Some (to_double x))"

text \<open>
  \<open>applyFilters\<close> and \<open>resetFilters\<close>. The \<open>fetchListings\<close> they call is the closure of the
  last render: it reads \<open>filters\<close> of the state the handler runs on, also after \<open>setFilters\<close>.
\<close>

definition applyFilters :: "home_state \<Rightarrow> home_state \<times> home_request list" where
  "applyFilters s =
     (let (s', reqs) = commit s (s\<lparr>loading := True, showFilters := False\<rparr>)
      in (s', Fetch_listings (fetchListings_query (filters s)) # reqs))"

definition resetFilters :: "home_state \<Rightarrow> home_state \<times> home_request list" where
  "resetFilters s =
     (let (s', reqs) = commit s (s\<lparr>filters := no_filters, loading := True, showFilters := False\<rparr>)
      in (s', Fetch_listings (fetchListings_query (filters s)) # reqs))"

section \<open>Example data\<close>

text \<open>Keys: two brands, a model of each, two listings, a user, and a uuid that is no key.\<close>

definition bmw_id :: jstring where
  "bmw_id = jstr ''11111111-1111-4111-8111-111111111111''"

definition audi_id :: jstring where
  "audi_id = jstr ''22222222-2222-4222-8222-222222222222''"

definition m3_id :: jstring where
  "m3_id = jstr ''33333333-3333-4333-8333-333333333333''"

definition a4_id :: jstring where
  "a4_id = jstr ''44444444-4444-4444-8444-444444444444''"

definition listing_a :: jstring where
  "listing_a = jstr ''aaaaaaaa-aaaa-4aaa-8aaa-aaaaaaaaaaaa''"

definition listing_d :: jstring where
  "listing_d = jstr ''dddddddd-dddd-4ddd-8ddd-dddddddddddd''"

definition seller_1 :: jstring where
  "seller_1 = jstr ''55555555-5555-4555-8555-555555555555''"

definition seller_2 :: jstring where
  "seller_2 = jstr ''66666666-6666-4666-8666-666666666666''"

definition missing_id :: jstring where
  "missing_id = jstr ''00000000-0000-4000-8000-000000000000''"

definition example_user :: user where
  "example_user = \<lparr>user_id = seller_1\<rparr>"

text \<open>
  The form of the specification's scenario, filled in; the entry \<open>seller_id\<close> is one the
  form of the component does not have.
\<close>

definition example_form :: FormData where
  "example_form name =
     (if name = jstr ''title'' then Some (jstr ''BMW M3'')
      else if name = jstr ''brand'' then Some bmw_id
      else if name = jstr ''model'' then Some m3_id
      else if name = jstr ''year'' then Some (jstr ''2021'')
      else if name = jstr ''price'' then Some (jstr ''15999.99'')
      else if name = jstr ''mileage'' then Some (jstr ''42000'')
      else if name = jstr ''condition'' then Some (jstr ''used'')
      else if name = jstr ''transmission'' then Some (jstr ''manual'')
      else if name = jstr ''color'' then Some (jstr ''red'')
      else if name = jstr ''vin'' then Some (jstr ''WBS123'')
      else if name = jstr ''images'' then Some (jstr ''http://a,  http://b ,'')
      else if name = jstr ''description'' then Some (jstr ''One owner'')
      else if name = jstr ''seller_id'' then Some seller_2
      else None)"

text \<open>
  Two sessions: nobody is signed in, and the example user is signed in. The messages are
  those of one browser, written without their quotation marks.
\<close>

definition signed_out :: submit_env where
  "signed_out =
     \<lparr>getUser = Resolved None, insert_result = (\<lambda>row. Resolved None),
      constructor_error_text =
        jstr ''Failed to construct FormData: parameter 1 is not of type HTMLFormElement.'',
      property_error_text = jstr ''Cannot read properties of null (reading split)''\<rparr>"

definition signed_in :: submit_env where
  "signed_in = signed_out\<lparr>getUser := Resolved (Some example_user)\<rparr>"

text \<open>The error object of a request the service refuses.\<close>

definition refusal :: js_exn where
  "refusal = ErrorInstance (jstr ''invalid input syntax'')"

definition example_listing :: "jstring \<Rightarrow> jstring \<Rightarrow> rat \<Rightarrow> int \<Rightarrow> int \<Rightarrow> car_listing" where
  "example_listing ident brand price mileage created =
     \<lparr>cl_id = ident, cl_seller_id = seller_1, cl_brand_id = brand,
      cl_model_id = (if brand = bmw_id then m3_id else a4_id), cl_title = jstr ''car'',
      cl_description = None, cl_year = 2020, cl_price = price, cl_mileage = mileage,
      cl_condition = Used, cl_transmission = Manual, cl_color = None, cl_vin = None,
      cl_images = [], cl_created_at = created\<rparr>"

text \<open>A table with listings of two brands, and a home page filtered to one of them.\<close>

definition mixed_table :: "car_listing list" where
  "mixed_table =
     [example_listing listing_a bmw_id 15000 42000 1,
      example_listing listing_d audi_id 18000 30000 2]"

definition filtered_home :: home_state where
  "filtered_home =
     \<lparr>listings = [example_listing listing_a bmw_id 15000 42000 1],
      loading = False, models = [],
      filters = no_filters\<lparr>brand_id := Some bmw_id\<rparr>, showFilters = True\<rparr>"

text \<open>The service answering a listing request of Home from a table.\<close>

definition answer_listings :: "car_listing list \<Rightarrow> home_request list \<Rightarrow> home_state \<Rightarrow> home_state" where
  "answer_listings table reqs s =
     (case reqs of
        Fetch_listings q # _ \<Rightarrow> fetchListings (listings_response refusal q table) s
      | _ \<Rightarrow> s)"

definition models_table :: "car_model list" where
  "models_table =
     [\<lparr>cm_id = m3_id, cm_brand_id = bmw_id, cm_name = jstr ''M3''\<rparr>,
      \<lparr>cm_id = a4_id, cm_brand_id = audi_id, cm_name = jstr ''A4''\<rparr>]"

text \<open>The filter panel: brand BMW is chosen and its models arrive.\<close>

definition home_with_models :: home_state where
  "home_with_models =
     (let s1 = fst (handleFilterChange (Set_brand_id (select_value bmw_id)) Home_init)
      in fetchModels (fetchModels_request refusal models_table bmw_id) s1)"

text \<open>Then model M3 is chosen, and then brand Audi.\<close>

definition after_brand_switch :: home_state where
  "after_brand_switch =
     (let s3 = fst (handleFilterChange (Set_model_id (select_value m3_id)) home_with_models)
      in fst (handleFilterChange (Set_brand_id (select_value audi_id)) s3))"

text \<open>Home when its first listing request has been answered from the table.\<close>

definition home_loaded :: home_state where
  "home_loaded =
     fetchListings (listings_response refusal (fetchListings_query no_filters) mixed_table) Home_init"

text \<open>Then \<open>0\<close> is typed into the field \<open>Max mileage\<close> of the filter panel.\<close>

definition zero_mileage_home :: home_state where
  "zero_mileage_home =
     fst (handleFilterChange (Set_maxMileage (number_value (Some 0))) home_loaded)"

text \<open>
  The creation form: brand BMW is chosen and its models arrive, model M3 is chosen, then
  brand Audi is chosen; the request for the models of Audi is under way.
\<close>

definition after_brand_change :: create_state where
  "after_brand_change =
     (let s1 = fst (lc_select_brand bmw_id ListingCreate_init);
          s2 = lc_fetchModels (fetchModels_request refusal models_table bmw_id) s1;
          s3 = lc_select_model m3_id s2
      in fst (lc_select_brand audi_id s3))"

text \<open>The same, and the request for the models of Audi has failed.\<close>

definition after_failed_models_fetch :: create_state where
  "after_failed_models_fetch =
     lc_fetchModels (Resolves None (Some (ErrorInstance (jstr ''Failed to fetch'')))) after_brand_change"

text \<open>A model of the table belongs to a brand.\<close>

definition model_of_brand :: "car_model list \<Rightarrow> jstring \<Rightarrow> jstring \<Rightarrow> bool" where
  "model_of_brand table m b \<longleftrightarrow> (\<exists>r \<in> set table. cm_id r = m \<and> cm_brand_id r = b)"

section \<open>The image list\<close>



















section \<open>The keys of the examples\<close>

lemma uuid_in_bmw_id: "uuid_in bmw_id = Some bmw_id"
  by code_simp

lemma uuid_in_audi_id: "uuid_in audi_id = Some audi_id"
  by code_simp

lemma uuid_in_m3_id: "uuid_in m3_id = Some m3_id"
  by code_simp

lemma uuid_in_missing_id: "uuid_in missing_id = Some missing_id"
  by code_simp

lemma uuid_in_no_such_id: "uuid_in (jstr ''no-such-id'') = None"
  by code_simp

lemma keys_not_empty: "bmw_id \<noteq> []" "audi_id \<noteq> []" "m3_id \<noteq> []"
  by (simp_all add: bmw_id_def audi_id_def m3_id_def jstr_def)

lemma keys_differ:
  "bmw_id \<noteq> audi_id" "audi_id \<noteq> bmw_id" "m3_id \<noteq> a4_id" "a4_id \<noteq> m3_id"
  "seller_2 \<noteq> seller_1" "missing_id \<noteq> listing_a" "missing_id \<noteq> listing_d"
  "listing_a \<noteq> missing_id" "listing_d \<noteq> missing_id"
  by (simp_all add: bmw_id_def audi_id_def m3_id_def a4_id_def seller_1_def seller_2_def
      missing_id_def listing_a_def listing_d_def jstr_def)

section \<open>The create submission\<close>

lemma handleSubmit_no_user:
  "getUser env = Resolved None \<Longrightarrow>
   handleSubmit env e s =
     \<lparr>state_after = s\<lparr>lc_loading := False, lc_error := None\<rparr>,
      navigated = Some (jstr ''/login''), insert_request = None\<rparr>"
  by (simp add: handleSubmit_def)

lemma insert_request_user:
  "insert_request (handleSubmit env e s) = Some row \<Longrightarrow>
   \<exists>u. getUser env = Resolved (Some u) \<and> ins_seller_id row = user_id u"
  by (auto simp: handleSubmit_def Let_def split: awaited.splits option.splits)

lemma handleSubmit_null_form:
  "currentTarget e = None \<Longrightarrow> insert_request (handleSubmit env e s) = None"
  by (simp add: handleSubmit_def Let_def split: awaited.splits option.splits)

lemma onSubmit_no_insert: "insert_request (onSubmit env form s) = None"
  by (simp add: onSubmit_def listener_returned_def handleSubmit_null_form)

text \<open>
  C3. A submission for which \<open>getUser\<close> reports no user issues no insert request and
  navigates to \<open>/login\<close>; an insert request is issued only when \<open>getUser\<close> has reported a
  user. This holds whatever the event holds when line 77 reads it.
\<close>

theorem no_identity_no_insert:
  "(getUser env = Resolved None \<longrightarrow>
      insert_request (handleSubmit env e s) = None \<and>
      navigated (handleSubmit env e s) = Some (jstr ''/login'')) \<and>
   (insert_request (handleSubmit env e s) \<noteq> None \<longrightarrow>
      (\<exists>u. getUser env = Resolved (Some u)))"
  using insert_request_user [of env e s]
  by (auto simp: handleSubmit_no_user)

theorem no_identity_no_insert_witness:
  "getUser signed_out = Resolved None \<and>
   insert_request (onSubmit signed_out example_form ListingCreate_init) = None \<and>
   navigated (onSubmit signed_out example_form ListingCreate_init) = Some (jstr ''/login'')"
  using no_identity_no_insert
          [of signed_out "listener_returned (dispatched example_form)" ListingCreate_init]
  by (simp add: signed_out_def onSubmit_def)

text \<open>
  C6. The seller id of every insert request is the id of the user \<open>getUser\<close> reported, so
  the request passes the insert policy for that user; two submissions in the same session
  carry the same seller id whatever their forms hold. The statement is about
  \<open>handleSubmit\<close> for every event it may find at line 77; the example has an event that
  still holds its form. (Under React's dispatch the event holds no form there, and no
  insert request is issued: see C7.)
\<close>

theorem seller_is_session_identity:
  "(insert_request (handleSubmit env e s) = Some row \<longrightarrow>
      (\<exists>u. getUser env = Resolved (Some u) \<and> ins_seller_id row = user_id u \<and>
           insert_policy (Some (user_id u)) row)) \<and>
   (insert_request (handleSubmit env e s) = Some row \<and>
    insert_request (handleSubmit env e' s') = Some row' \<longrightarrow>
      ins_seller_id row' = ins_seller_id row)"
proof (intro conjI impI)
  assume r: "insert_request (handleSubmit env e s) = Some row"
  from insert_request_user [OF r]
  show "\<exists>u. getUser env = Resolved (Some u) \<and> ins_seller_id row = user_id u \<and>
           insert_policy (Some (user_id u)) row"
    by (auto simp: insert_policy_def)
next
  assume "insert_request (handleSubmit env e s) = Some row \<and>
    insert_request (handleSubmit env e' s') = Some row'"
  then show "ins_seller_id row' = ins_seller_id row"
    using insert_request_user [of env e s row] insert_request_user [of env e' s' row']
    by auto
qed

theorem seller_is_session_identity_witness:
  "map_option ins_seller_id
     (insert_request (handleSubmit signed_in (dispatched example_form) ListingCreate_init)) =
     Some seller_1 \<and>
   example_form (jstr ''seller_id'') = Some seller_2 \<and> seller_2 \<noteq> seller_1"
proof -
  let ?out = "handleSubmit signed_in (dispatched example_form) ListingCreate_init"
  have im: "example_form (jstr ''images'') = Some (jstr ''http://a,  http://b ,'')"
    by (simp add: example_form_def jstr_def)
  obtain row where row: "insert_request ?out = Some row"
    using im by (simp add: handleSubmit_def dispatched_def signed_in_def signed_out_def Let_def)
  from seller_is_session_identity
         [of signed_in "dispatched example_form" ListingCreate_init row
             "dispatched example_form" ListingCreate_init row] row
  have "\<exists>u. getUser signed_in = Resolved (Some u) \<and> ins_seller_id row = user_id u"
    by blast
  then have "ins_seller_id row = seller_1"
    by (auto simp: signed_in_def example_user_def)
  moreover have "example_form (jstr ''seller_id'') = Some seller_2"
    by (simp add: example_form_def jstr_def)
  ultimately show ?thesis
    using row keys_differ by simp
qed

section \<open>The numbers of the scenario\<close>

lemma floor_numeral_quotient:
  "\<lfloor>(numeral a / numeral b :: rat)\<rfloor> = numeral a div numeral b"
  using floor_divide_of_int_eq [of "numeral a" "numeral b", where ?'a = rat] by simp

lemma round_half_even_of_int: "round_half_even (of_int z) = z"
  by (simp add: round_half_even_def)

lemma bit_length_le: "n < 2 ^ k \<Longrightarrow> bit_length n \<le> int k"
proof (induction k arbitrary: n)
  case 0
  then show ?case by (simp add: bit_length.simps)
next
  case (Suc k)
  show ?case
  proof (cases "n \<le> 0")
    case True
    then show ?thesis by (simp add: bit_length.simps)
  next
    case False
    from Suc.prems have "n div 2 < 2 ^ k" by simp
    then have "bit_length (n div 2) \<le> int k" by (rule Suc.IH)
    with False show ?thesis by (subst bit_length.simps) simp
  qed
qed

lemma to_double_eval:
  assumes "q \<noteq> 0"
    and "max (binary_exponent \<bar>q\<bar>) (- 1022) = e"
    and "pow2 (e - 52) = u"
    and "round_half_even (\<bar>q\<bar> / u) = m"
  shows "to_double q =
     (if pow2 1024 \<le> of_int m * u then (if 0 < q then PosInfinity else NegInfinity)
      else Finite (if 0 < q then of_int m * u else - (of_int m * u)))"
  using assms(1) unfolding to_double_def Let_def assms(2) assms(3) assms(4) by simp

lemma to_double_int_exact:
  assumes "\<bar>n\<bar> < 2 ^ 53"
  shows "to_double (of_int n) = Finite (of_int n)"
proof (cases "n = 0")
  case True
  then show ?thesis by (simp add: to_double_def)
next
  case False
  define e where "e = max (binary_exponent \<bar>of_int n\<bar>) (- 1022)"
  define m where "m = round_half_even (\<bar>of_int n :: rat\<bar> / pow2 (e - 52))"
  have q: "(of_int n :: rat) \<noteq> 0" using False by simp
  note ev = to_double_eval [OF q e_def [symmetric] refl m_def [symmetric]]
  have "1 \<le> \<bar>n\<bar>"
    using False by simp
  then have "(of_int 1 :: rat) \<le> of_int \<bar>n\<bar>"
    by (simp only: of_int_le_iff)
  then have one: "1 \<le> \<bar>of_int n :: rat\<bar>"
    by simp
  have "bit_length \<bar>n\<bar> \<le> 53"
    using bit_length_le [OF assms] by simp
  moreover have "\<lfloor>\<bar>of_int n :: rat\<bar>\<rfloor> = \<bar>n\<bar>"
    by (metis of_int_abs floor_of_int)
  ultimately have "binary_exponent \<bar>of_int n\<bar> \<le> 52"
    using one by (simp add: binary_exponent_def)
  then have le: "e \<le> 52" by (simp add: e_def)
  have p: "pow2 (e - 52) = 1 / 2 ^ nat (52 - e)"
    using le by (cases "e = 52") (simp_all add: pow2_def)
  have "\<bar>of_int n :: rat\<bar> / pow2 (e - 52) = of_int (\<bar>n\<bar> * 2 ^ nat (52 - e))"
    by (simp add: p)
  then have "m = \<bar>n\<bar> * 2 ^ nat (52 - e)"
    unfolding m_def by (simp only: round_half_even_of_int)
  then have v: "of_int m * pow2 (e - 52) = (of_int \<bar>n\<bar> :: rat)"
    by (simp add: p)
  have "(of_int \<bar>n\<bar> :: rat) < 2 ^ 53"
    using assms by (metis of_int_less_iff of_int_numeral of_int_power)
  then have "\<not> pow2 1024 \<le> (of_int \<bar>n\<bar> :: rat)"
    by (simp add: pow2_def)
  with ev v show ?thesis
    by (cases "0 < n") (simp_all add: abs_if)
qed

lemma to_double_numeral:
  "numeral w < (2 ^ 53 :: int) \<Longrightarrow> to_double (numeral w) = Finite (numeral w)"
  using to_double_int_exact [of "numeral w"] by simp

lemma parseInt_2021: "parseInt (jstr ''2021'') = Finite 2021"
  by (simp add: parseInt_def jstr_def trim_start_def is_whitespace_def is_radix_digit_def
      digit_value_def digits_value_def to_double_numeral Let_def)

lemma parseInt_42000: "parseInt (jstr ''42000'') = Finite 42000"
  by (simp add: parseInt_def jstr_def trim_start_def is_whitespace_def is_radix_digit_def
      digit_value_def digits_value_def to_double_numeral Let_def)

lemma to_double_price:
  "to_double (1599999 / 100) = Finite (8796087524649861 / 549755813888)"
proof -
  have e: "max (binary_exponent \<bar>1599999 / 100\<bar>) (- 1022) = 13"
    by (simp add: binary_exponent_def bit_length.simps floor_numeral_quotient)
  have u: "pow2 (13 - 52) = 1 / 549755813888"
    by (simp add: pow2_def)
  have m: "round_half_even (\<bar>1599999 / 100\<bar> / (1 / 549755813888)) = 8796087524649861"
    by (simp add: round_half_even_def floor_numeral_quotient Let_def)
  have "(1599999 / 100 :: rat) \<noteq> 0"
    by simp
  from to_double_eval [OF this e u m] show ?thesis
    by (simp add: pow2_def)
qed

lemma parseFloat_price:
  "parseFloat (jstr ''15999.99'') = Finite (8796087524649861 / 549755813888)"
  by (simp add: parseFloat_def jstr_def trim_start_def is_whitespace_def is_radix_digit_def
      digit_value_def digits_value_def exponent_part_def pow10_def to_double_price Let_def)

lemma shortest_decimal_numeral:
  "shortest_decimal (numeral w) k n a =
     (let scale = pow10 (n - k);
          lo = \<lfloor>a / scale\<rfloor>;
          hi = lo + 1;
          ok = (\<lambda>s. pow10 (k - 1) \<le> of_int s \<and> of_int s \<le> pow10 k \<and>
                     to_double (of_int s * scale) = Finite a);
          dlo = a - of_int lo * scale;
          dhi = of_int hi * scale - a
      in if ok lo \<and> ok hi then
           Some (of_int (if dlo < dhi then lo else if dhi < dlo then hi
                         else if even lo then lo else hi) * scale)
         else if ok lo then Some (of_int lo * scale)
         else if ok hi then Some (of_int hi * scale)
         else shortest_decimal (pred_numeral w) (k + 1) n a)"
  by (simp add: numeral_eq_Suc)

lemma to_double_15999_9:
  "to_double (159999 / 10) = Finite (8796038046626611 / 549755813888)"
proof -
  have e: "max (binary_exponent \<bar>159999 / 10\<bar>) (- 1022) = 13"
    by (simp add: binary_exponent_def bit_length.simps floor_numeral_quotient)
  have u: "pow2 (13 - 52) = 1 / 549755813888"
    by (simp add: pow2_def)
  have m: "round_half_even (\<bar>159999 / 10\<bar> / (1 / 549755813888)) = 8796038046626611"
    by (simp add: round_half_even_def floor_numeral_quotient Let_def)
  have "(159999 / 10 :: rat) \<noteq> 0"
    by simp
  from to_double_eval [OF this e u m] show ?thesis
    by (simp add: pow2_def)
qed

lemma to_double_15999_98:
  "to_double (799999 / 50) = Finite (8796082027091722 / 549755813888)"
proof -
  have e: "max (binary_exponent \<bar>799999 / 50\<bar>) (- 1022) = 13"
    by (simp add: binary_exponent_def bit_length.simps floor_numeral_quotient)
  have u: "pow2 (13 - 52) = 1 / 549755813888"
    by (simp add: pow2_def)
  have m: "round_half_even (\<bar>799999 / 50\<bar> / (1 / 549755813888)) = 8796082027091722"
    by (simp add: round_half_even_def floor_numeral_quotient Let_def)
  have "(799999 / 50 :: rat) \<noteq> 0"
    by simp
  from to_double_eval [OF this e u m] show ?thesis
    by (simp add: pow2_def)
qed

lemma toString_price:
  "toString_decimal (Finite (8796087524649861 / 549755813888)) = Some (1599999 / 100)"
  by (simp add: toString_decimal_def decimal_exponent_def dec_length.simps
      shortest_decimal_numeral Let_def pow10_def floor_numeral_quotient to_double_numeral
      to_double_15999_9 to_double_15999_98 to_double_price)

lemma toString_zero: "toString_decimal (Finite 0) = Some 0"
  by (simp add: toString_decimal_def)

lemma example_form_fields:
  "map example_form
     [jstr ''year'', jstr ''price'', jstr ''mileage'', jstr ''condition'', jstr ''transmission''] =
     [Some (jstr ''2021''), Some (jstr ''15999.99''), Some (jstr ''42000''),
      Some (jstr ''used''), Some (jstr ''manual'')]"
  by (simp add: example_form_def jstr_def)

lemma constructor_error_text_signed_in: "constructor_error_text signed_in \<noteq> []"
  by (simp add: signed_in_def signed_out_def jstr_def)

lemma onSubmit_signed_in:
  "onSubmit signed_in example_form ListingCreate_init =
     \<lparr>state_after = ListingCreate_init\<lparr>lc_error := Some (constructor_error_text signed_in)\<rparr>,
      navigated = None, insert_request = None\<rparr>"
  by (simp add: onSubmit_def listener_returned_def dispatched_def handleSubmit_def
      signed_in_def signed_out_def ListingCreate_init_def error_text_def Let_def)

text \<open>
  C7. A signed-in user submits the form of the scenario (year \<open>"2021"\<close>, price
  \<open>"15999.99"\<close>, mileage \<open>"42000"\<close>, condition \<open>"used"\<close>, transmission \<open>"manual"\<close>).
  \<open>handleSubmit\<close> reads \<open>e.currentTarget\<close> on line 77, after the \<open>await\<close> of line 70, when
  React has set it to \<open>null\<close>: \<open>new FormData\<close> throws, the \<open>catch\<close> block puts the message of
  the \<open>TypeError\<close> into the banner, there is no \<open>navigate\<close> call and no insert request, so
  no listing row is produced; and so it is for every submission, whatever the session and
  the form. Lines 90-92 are not reached; applied to the strings of the scenario, their
  \<open>parseInt\<close> gives the integers 2021 and 42000 and their \<open>parseFloat\<close> the double that
  a request writes as \<open>15999.99\<close>.
\<close>

theorem submission_throws_before_insert:
  "insert_request (onSubmit env form s) = None \<and>
   getUser signed_in = Resolved (Some example_user) \<and>
   map example_form
     [jstr ''year'', jstr ''price'', jstr ''mileage'', jstr ''condition'', jstr ''transmission''] =
     [Some (jstr ''2021''), Some (jstr ''15999.99''), Some (jstr ''42000''),
      Some (jstr ''used''), Some (jstr ''manual'')] \<and>
   onSubmit signed_in example_form ListingCreate_init =
     \<lparr>state_after = ListingCreate_init\<lparr>lc_error := Some (constructor_error_text signed_in)\<rparr>,
      navigated = None, insert_request = None\<rparr> \<and>
   error_banner (state_after (onSubmit signed_in example_form ListingCreate_init)) =
     Some (constructor_error_text signed_in) \<and>
   parseInt (jstr ''2021'') = Finite 2021 \<and>
   parseInt (jstr ''42000'') = Finite 42000 \<and>
   toString_decimal (parseFloat (jstr ''15999.99'')) = Some (1599999 / 100)"
proof (intro conjI)
  show "insert_request (onSubmit env form s) = None"
    by (rule onSubmit_no_insert)
  show "getUser signed_in = Resolved (Some example_user)"
    by (simp add: signed_in_def)
  show "map example_form
     [jstr ''year'', jstr ''price'', jstr ''mileage'', jstr ''condition'', jstr ''transmission''] =
     [Some (jstr ''2021''), Some (jstr ''15999.99''), Some (jstr ''42000''),
      Some (jstr ''used''), Some (jstr ''manual'')]"
    by (rule example_form_fields)
  show "onSubmit signed_in example_form ListingCreate_init =
     \<lparr>state_after = ListingCreate_init\<lparr>lc_error := Some (constructor_error_text signed_in)\<rparr>,
      navigated = None, insert_request = None\<rparr>"
    by (rule onSubmit_signed_in)
  show "error_banner (state_after (onSubmit signed_in example_form ListingCreate_init)) =
     Some (constructor_error_text signed_in)"
    using constructor_error_text_signed_in by (simp add: onSubmit_signed_in error_banner_def)
  show "parseInt (jstr ''2021'') = Finite 2021"
    by (rule parseInt_2021)
  show "parseInt (jstr ''42000'') = Finite 42000"
    by (rule parseInt_42000)
  show "toString_decimal (parseFloat (jstr ''15999.99'')) = Some (1599999 / 100)"
    by (simp only: parseFloat_price toString_price)
qed

section \<open>Failed requests\<close>

text \<open>
  C8. On the filter panel of Home the models of BMW are shown. A request for models that
  resolves with an error (and so with no data) empties the list: \<open>fetchModels\<close> of Home
  reads only \<open>data\<close>. The state before the failure is not kept, and nothing is shown to
  the user. \<open>fetchModels\<close> of ListingCreate and \<open>fetchListings\<close> of Home, which test
  \<open>error\<close>, keep the list and the listings on the same response.
\<close>

theorem failed_models_fetch_empties_list:
  "models home_with_models = [\<lparr>cm_id = m3_id, cm_brand_id = bmw_id, cm_name = jstr ''M3''\<rparr>] \<and>
   models (fetchModels (Resolves None (Some e)) home_with_models) = [] \<and>
   fetchModels (Resolves None (Some e)) s = s\<lparr>models := []\<rparr> \<and>
   lc_fetchModels (Resolves None (Some e)) c = c \<and>
   fetchListings (Resolves None (Some e)) s = s\<lparr>loading := False\<rparr>"
proof (intro conjI)
  show "models home_with_models = [\<lparr>cm_id = m3_id, cm_brand_id = bmw_id, cm_name = jstr ''M3''\<rparr>]"
    by (simp add: home_with_models_def fetchModels_def fetchModels_request_def uuid_in_bmw_id
        models_table_def keys_differ)
  show "models (fetchModels (Resolves None (Some e)) home_with_models) = []"
    by (simp add: fetchModels_def)
  show "fetchModels (Resolves None (Some e)) s = s\<lparr>models := []\<rparr>"
    by (simp add: fetchModels_def)
  show "lc_fetchModels (Resolves None (Some e)) c = c"
    by (simp add: lc_fetchModels_def)
  show "fetchListings (Resolves None (Some e)) s = s\<lparr>loading := False\<rparr>"
    by (simp add: fetchListings_def)
qed

section \<open>The listing query\<close>

lemma predicates_step [simp]:
  "q_predicates (if c then eq col v q else q) = q_predicates q @ (if c then [Eq col v] else [])"
  "q_predicates (if c then gte ncol x q else q) = q_predicates q @ (if c then [Gte ncol x] else [])"
  "q_predicates (if c then lte ncol x q else q) = q_predicates q @ (if c then [Lte ncol x] else [])"
  by (simp_all add: eq_def gte_def lte_def)

lemma order_step [simp]:
  "q_order_by (if c then eq col v q else q) = q_order_by q"
  "q_order_by (if c then gte ncol x q else q) = q_order_by q"
  "q_order_by (if c then lte ncol x q else q) = q_order_by q"
  "q_ascending (if c then eq col v q else q) = q_ascending q"
  "q_ascending (if c then gte ncol x q else q) = q_ascending q"
  "q_ascending (if c then lte ncol x q else q) = q_ascending q"
  "q_from (if c then eq col v q else q) = q_from q"
  "q_from (if c then gte ncol x q else q) = q_from q"
  "q_from (if c then lte ncol x q else q) = q_from q"
  "q_embedded (if c then eq col v q else q) = q_embedded q"
  "q_embedded (if c then gte ncol x q else q) = q_embedded q"
  "q_embedded (if c then lte ncol x q else q) = q_embedded q"
  by (simp_all add: eq_def gte_def lte_def)

lemma fetchListings_query_predicates:
  "q_predicates (fetchListings_query f) =
     (if truthy_string (brand_id f) then [Eq Col_brand_id (the (brand_id f))] else []) @
     (if truthy_string (model_id f) then [Eq Col_model_id (the (model_id f))] else []) @
     (if truthy_number (minPrice f) then [Gte Col_price (the (minPrice f))] else []) @
     (if truthy_number (maxPrice f) then [Lte Col_price (the (maxPrice f))] else []) @
     (if truthy_number (minYear f) then [Gte Col_year (the (minYear f))] else []) @
     (if truthy_number (maxYear f) then [Lte Col_year (the (maxYear f))] else []) @
     (if truthy_number (minMileage f) then [Gte Col_mileage (the (minMileage f))] else []) @
     (if truthy_number (maxMileage f) then [Lte Col_mileage (the (maxMileage f))] else []) @
     (if truthy_string (transmission f) then [Eq Col_transmission (the (transmission f))] else []) @
     (if truthy_string (condition f) then [Eq Col_condition (the (condition f))] else [])"
  unfolding fetchListings_query_def Let_def
  by (simp add: order_def select_listings_def split del: if_split)

lemma fetchListings_query_order:
  "q_order_by (fetchListings_query f) = Some Col_created_at \<and>
   q_ascending (fetchListings_query f) = False \<and>
   q_from (fetchListings_query f) = jstr ''car_listings'' \<and>
   q_embedded (fetchListings_query f) = [jstr ''car_brands'', jstr ''car_models'']"
  unfolding fetchListings_query_def Let_def
  by (simp add: order_def select_listings_def split del: if_split)

lemma no_filters_no_predicates: "q_predicates (fetchListings_query no_filters) = []"
  by (simp add: fetchListings_query_predicates no_filters_def truthy_string_def truthy_number_def)

lemma query_eqI:
  assumes "q_predicates (fetchListings_query f) = q_predicates (fetchListings_query g)"
  shows "fetchListings_query f = fetchListings_query g"
  using assms fetchListings_query_order [of f] fetchListings_query_order [of g]
  by (cases "fetchListings_query f"; cases "fetchListings_query g") simp

lemma run_query_no_filters:
  "run_query (fetchListings_query no_filters) mixed_table =
     Some [example_listing listing_d audi_id 18000 30000 2,
           example_listing listing_a bmw_id 15000 42000 1]"
  by (simp add: run_query_def no_filters_no_predicates fetchListings_query_order
      mixed_table_def example_listing_def)

lemma zero_mileage_filters:
  "filters zero_mileage_home = no_filters\<lparr>maxMileage := Some (Finite 0)\<rparr>"
  by (simp add: zero_mileage_home_def home_loaded_def handleFilterChange_def commit_def
      set_filter_def number_value_def to_double_def Home_init_def fetchListings_def
      listings_response_def run_query_no_filters)

lemma zero_mileage_predicates:
  "q_predicates (fetchListings_query (filters zero_mileage_home)) = []"
  by (simp add: zero_mileage_filters fetchListings_query_predicates no_filters_def
      truthy_string_def truthy_number_def)

lemma applyFilters_eq:
  "applyFilters s =
     (s\<lparr>loading := True, showFilters := False\<rparr>,
      [Fetch_listings (fetchListings_query (filters s))])"
  by (simp add: applyFilters_def commit_def)

text \<open>
  C1. On the filter panel \<open>0\<close> is typed into \<open>Max mileage\<close>, which stores the number 0 in
  the filter record, and \<open>Apply Filters\<close> is pressed. The field is present, and the
  specification has the predicate \<open>mileage <= 0\<close> for it, which no row of the table
  satisfies. \<open>fetchListings\<close> tests the field with \<^verbatim>\<open>if (filters.maxMileage)\<close>, which is
  false for 0 as it is for \<open>undefined\<close>: the query has no predicate, it is the query of the
  empty filter set, and the page shows every listing.
\<close>

theorem zero_bound_is_dropped:
  "maxMileage (filters zero_mileage_home) = Some (Finite 0) \<and>
   spec_predicates (filters zero_mileage_home) = [Lte Col_mileage (Finite 0)] \<and>
   run_query
     ((fetchListings_query no_filters)\<lparr>q_predicates := spec_predicates (filters zero_mileage_home)\<rparr>)
     mixed_table = Some [] \<and>
   snd (applyFilters zero_mileage_home) =
     [Fetch_listings (fetchListings_query (filters zero_mileage_home))] \<and>
   q_predicates (fetchListings_query (filters zero_mileage_home)) = [] \<and>
   fetchListings_query (filters zero_mileage_home) = fetchListings_query no_filters \<and>
   listings (answer_listings mixed_table (snd (applyFilters zero_mileage_home))
               (fst (applyFilters zero_mileage_home))) =
     [example_listing listing_d audi_id 18000 30000 2,
      example_listing listing_a bmw_id 15000 42000 1]"
proof (intro conjI)
  show "maxMileage (filters zero_mileage_home) = Some (Finite 0)"
    by (simp add: zero_mileage_filters)
  show sp: "spec_predicates (filters zero_mileage_home) = [Lte Col_mileage (Finite 0)]"
    by (simp add: zero_mileage_filters spec_predicates_def present_def no_filters_def)
  show "run_query
     ((fetchListings_query no_filters)\<lparr>q_predicates := spec_predicates (filters zero_mileage_home)\<rparr>)
     mixed_table = Some []"
    unfolding sp
    by (simp add: run_query_def fetchListings_query_order number_literal_in_def toString_zero
        integer_in_def number_cell_def mixed_table_def example_listing_def)
  show "snd (applyFilters zero_mileage_home) =
     [Fetch_listings (fetchListings_query (filters zero_mileage_home))]"
    by (simp add: applyFilters_eq)
  show "q_predicates (fetchListings_query (filters zero_mileage_home)) = []"
    by (rule zero_mileage_predicates)
  show same: "fetchListings_query (filters zero_mileage_home) = fetchListings_query no_filters"
    by (rule query_eqI) (simp add: zero_mileage_predicates no_filters_no_predicates)
  show "listings (answer_listings mixed_table (snd (applyFilters zero_mileage_home))
               (fst (applyFilters zero_mileage_home))) =
     [example_listing listing_d audi_id 18000 30000 2,
      example_listing listing_a bmw_id 15000 42000 1]"
    by (simp add: applyFilters_eq answer_listings_def same listings_response_def
        run_query_no_filters fetchListings_def)
qed

section \<open>Resetting the filters\<close>

lemma resetFilters_eq:
  "resetFilters s =
     (s\<lparr>filters := no_filters, loading := True, showFilters := False,
        models := (if brand_id (filters s) = None then models s else [])\<rparr>,
      [Fetch_listings (fetchListings_query (filters s))])"
  by (auto simp: resetFilters_def commit_def brand_effect_def no_filters_def truthy_string_def)

lemma filtered_home_predicates:
  "q_predicates (fetchListings_query (filters filtered_home)) = [Eq Col_brand_id bmw_id]"
  by (simp add: fetchListings_query_predicates filtered_home_def no_filters_def
      truthy_string_def truthy_number_def keys_not_empty)

lemma run_query_filtered_home:
  "run_query (fetchListings_query (filters filtered_home)) mixed_table =
     Some [example_listing listing_a bmw_id 15000 42000 1]"
  by (simp add: run_query_def filtered_home_predicates fetchListings_query_order
      string_literal_in_def string_cell_def uuid_in_bmw_id mixed_table_def example_listing_def
      keys_differ)

text \<open>
  C10. \<open>resetFilters\<close> leaves the empty filter record, and the one listing request it
  issues is built from the filters of the render it ran in, not from the empty record: if
  those filters give any predicate, the request is not the request of the empty filter
  set. In the example the page was filtered to one brand; after the reset the filters are
  empty and the listings are still that brand's only, while the empty filter set selects
  both rows of the table.
\<close>

theorem reset_fetches_with_rendered_filters:
  "filters (fst (resetFilters s)) = no_filters \<and>
   snd (resetFilters s) = [Fetch_listings (fetchListings_query (filters s))] \<and>
   (q_predicates (fetchListings_query (filters s)) \<noteq> [] \<longrightarrow>
      snd (resetFilters s) \<noteq> [Fetch_listings (fetchListings_query no_filters)]) \<and>
   filters (answer_listings mixed_table (snd (resetFilters filtered_home))
              (fst (resetFilters filtered_home))) = no_filters \<and>
   listings (answer_listings mixed_table (snd (resetFilters filtered_home))
              (fst (resetFilters filtered_home))) =
     [example_listing listing_a bmw_id 15000 42000 1] \<and>
   run_query (fetchListings_query no_filters) mixed_table =
     Some [example_listing listing_d audi_id 18000 30000 2,
           example_listing listing_a bmw_id 15000 42000 1]"
proof (intro conjI impI)
  show "filters (fst (resetFilters s)) = no_filters"
    by (simp add: resetFilters_eq)
  show "snd (resetFilters s) = [Fetch_listings (fetchListings_query (filters s))]"
    by (simp add: resetFilters_eq)
  show "snd (resetFilters s) \<noteq> [Fetch_listings (fetchListings_query no_filters)]"
    if "q_predicates (fetchListings_query (filters s)) \<noteq> []"
    using that no_filters_no_predicates by (auto simp: resetFilters_eq)
  show "filters (answer_listings mixed_table (snd (resetFilters filtered_home))
              (fst (resetFilters filtered_home))) = no_filters"
    by (simp add: resetFilters_eq answer_listings_def listings_response_def
        run_query_filtered_home fetchListings_def)
  show "listings (answer_listings mixed_table (snd (resetFilters filtered_home))
              (fst (resetFilters filtered_home))) =
     [example_listing listing_a bmw_id 15000 42000 1]"
    by (simp add: resetFilters_eq answer_listings_def listings_response_def
        run_query_filtered_home fetchListings_def)
  show "run_query (fetchListings_query no_filters) mixed_table =
     Some [example_listing listing_d audi_id 18000 30000 2,
           example_listing listing_a bmw_id 15000 42000 1]"
    by (rule run_query_no_filters)
qed

theorem reset_fetches_with_rendered_filters_witness:
  "q_predicates (fetchListings_query (filters filtered_home)) = [Eq Col_brand_id bmw_id] \<and>
   snd (resetFilters filtered_home) \<noteq> [Fetch_listings (fetchListings_query no_filters)]"
proof -
  have p: "q_predicates (fetchListings_query (filters filtered_home)) = [Eq Col_brand_id bmw_id]"
    by (rule filtered_home_predicates)
  then have "q_predicates (fetchListings_query (filters filtered_home)) \<noteq> []"
    by simp
  with reset_fetches_with_rendered_filters [of filtered_home] p show ?thesis
    by blast
qed

section \<open>Changing the brand on the filter panel\<close>

lemma home_with_models_filters:
  "filters home_with_models = no_filters\<lparr>brand_id := Some bmw_id\<rparr>"
  by (simp add: home_with_models_def handleFilterChange_def commit_def brand_effect_def
      set_filter_def select_value_def Home_init_def no_filters_def truthy_string_def
      fetchModels_def fetchModels_request_def uuid_in_bmw_id keys_not_empty)

text \<open>
  C2 on the filter panel of Home: after brand BMW, model M3 and then brand Audi, the
  filters still hold model M3, and the query asks for Audi listings of model M3.
\<close>

theorem brand_switch_keeps_model_filter:
  "brand_id (filters after_brand_switch) = Some audi_id \<and>
   model_id (filters after_brand_switch) = Some m3_id \<and>
   q_predicates (fetchListings_query (filters after_brand_switch)) =
     [Eq Col_brand_id audi_id, Eq Col_model_id m3_id]"
proof -
  have "filters after_brand_switch = no_filters\<lparr>brand_id := Some audi_id, model_id := Some m3_id\<rparr>"
    by (simp add: after_brand_switch_def handleFilterChange_def commit_def brand_effect_def
        set_filter_def select_value_def home_with_models_filters no_filters_def
        truthy_string_def keys_not_empty keys_differ)
  then show ?thesis
    by (simp add: fetchListings_query_predicates no_filters_def truthy_string_def
        truthy_number_def keys_not_empty)
qed

section \<open>A listing that does not exist\<close>

text \<open>
  C4. For an id that no listing has, \<open>.single()\<close> resolves with an error; \<open>fetchListing\<close>
  throws it and the component renders the error text, as it does when the request itself
  fails, and not \<open>Listing not found\<close>: with an error object that is no \<open>Error\<close> instance
  the two screens are the same, with one that is, the screen shows the library's message.
  The id of the example is a uuid that is the key of no row; an id that is no uuid is
  refused by the service and renders the error text as well.
\<close>

theorem missing_listing_renders_error:
  "ListingDetails_view
     (fetchListing (fetchListing_request refusal OtherThrown [] missing_id) ListingDetails_init) =
     Error_view (jstr ''An error occurred'') \<and>
   ListingDetails_view (fetchListing (Rejects OtherThrown) ListingDetails_init) =
     Error_view (jstr ''An error occurred'') \<and>
   ListingDetails_view
     (fetchListing
        (fetchListing_request refusal
           (ErrorInstance (jstr ''JSON object requested, multiple (or no) rows returned''))
           mixed_table missing_id)
        ListingDetails_init) =
     Error_view (jstr ''JSON object requested, multiple (or no) rows returned'') \<and>
   uuid_in missing_id = Some missing_id \<and>
   missing_id \<notin> set (map cl_id mixed_table) \<and>
   ListingDetails_view
     (fetchListing (fetchListing_request OtherThrown OtherThrown mixed_table (jstr ''no-such-id''))
        ListingDetails_init) =
     Error_view (jstr ''An error occurred'')"
proof -
  have none: "fetchListing_request refusal e [] missing_id = Resolves None (Some e)" for e
    by (simp add: fetchListing_request_def uuid_in_missing_id single_def)
  have no_row: "fetchListing_request refusal e mixed_table missing_id = Resolves None (Some e)" for e
    by (simp add: fetchListing_request_def uuid_in_missing_id single_def mixed_table_def
        example_listing_def keys_differ)
  have no_uuid: "fetchListing_request OtherThrown OtherThrown mixed_table (jstr ''no-such-id'') =
      Resolves None (Some OtherThrown)"
    by (simp add: fetchListing_request_def uuid_in_no_such_id)
  show ?thesis
    unfolding none no_row no_uuid
    by (simp add: ListingDetails_view_def fetchListing_def ListingDetails_init_def error_text_def
        mixed_table_def example_listing_def uuid_in_missing_id keys_differ jstr_def)
qed

section \<open>The models offered by the creation form\<close>

lemma after_brand_change_eq:
  "after_brand_change =
     \<lparr>lc_loading = False, lc_error = None,
      lc_models = [\<lparr>cm_id = m3_id, cm_brand_id = bmw_id, cm_name = jstr ''M3''\<rparr>],
      selectedBrand = audi_id, model_select = m3_id\<rparr>"
  by (simp add: after_brand_change_def lc_select_brand_def lc_brand_effect_def
      lc_fetchModels_def fetchModels_request_def uuid_in_bmw_id setModels_def
      lc_select_model_def ListingCreate_init_def models_table_def keys_not_empty keys_differ)

text \<open>
  C9. On the creation form brand BMW is chosen, its models arrive, model M3 is chosen, and
  then brand Audi is chosen. The effect on \<open>selectedBrand\<close> only starts \<open>fetchModels\<close>, so
  while the request for the models of Audi is under way the select is enabled and offers
  the models of BMW, with M3 chosen, under the brand Audi; and when that request fails,
  \<open>fetchModels\<close> leaves the list as it is, and M3, which is no model of Audi, stays on
  offer and can be chosen again.
\<close>

theorem stale_model_options_after_brand_change:
  "selectedBrand after_brand_change = audi_id \<and>
   lc_models after_brand_change = [\<lparr>cm_id = m3_id, cm_brand_id = bmw_id, cm_name = jstr ''M3''\<rparr>] \<and>
   model_select after_brand_change = m3_id \<and>
   model_of_brand models_table m3_id bmw_id \<and>
   \<not> model_of_brand models_table m3_id audi_id \<and>
   after_failed_models_fetch = after_brand_change \<and>
   model_select (lc_select_model m3_id (lc_select_model [] after_failed_models_fetch)) = m3_id"
proof -
  have f: "after_failed_models_fetch = after_brand_change"
    by (simp add: after_failed_models_fetch_def lc_fetchModels_def)
  show ?thesis
    unfolding f
    by (simp add: after_brand_change_eq model_of_brand_def models_table_def lc_select_model_def
        keys_not_empty keys_differ)
qed

end
